theory Spec2Isabelle
  imports Complex_Main
begin

section \<open>JavaScript numbers\<close>

text \<open>
  A JavaScript number is an IEEE double. A finite double is kept as the rational it denotes,
  and every arithmetic operation rounds its exact result to the nearest double, ties to
  even: 53 significant bits, the smallest exponent that of the subnormal numbers. Results
  beyond the largest double (overflow to an infinity) are outside this model; only the
  quotient of two viewport lengths keeps the special results of a division by zero.
\<close>

definition round_half_even :: "rat \<Rightarrow> int" where
  "round_half_even x =
     (let f = \<lfloor>x\<rfloor>; d = x - of_int f
      in if d < 1 / 2 then f else if 1 / 2 < d then f + 1 else if even f then f else f + 1)"

fun normalise :: "nat \<Rightarrow> rat \<Rightarrow> int \<Rightarrow> rat \<times> int" where
  \<comment> \<open>scales a positive \<open>a\<close> by powers of two into \<open>2 ^ 52 \<le> a < 2 ^ 53\<close>, counting the
      exponent and never taking it below \<open>- 1074\<close>, in jumps of 64, 16, 4 and 1 binary places;
      the first argument bounds the number of jumps. The numerals are \<open>2 ^ 116\<close>, \<open>2 ^ 64\<close>,
      \<open>2 ^ 68\<close>, \<open>2 ^ 16\<close>, \<open>2 ^ 56\<close>, \<open>2 ^ 53\<close>, then \<open>2 ^ 11\<close>, \<open>2 ^ 37\<close>, \<open>2 ^ 49\<close>
      and \<open>2 ^ 52\<close>.\<close>
  "normalise 0 a e = (a, e)"
| "normalise (Suc n) a e =
     (if 83076749736557242056487941267521536 \<le> a
        then normalise n (a / 18446744073709551616) (e + 64)
      else if 295147905179352825856 \<le> a then normalise n (a / 65536) (e + 16)
      else if 72057594037927936 \<le> a then normalise n (a / 16) (e + 4)
      else if 9007199254740992 \<le> a then normalise n (a / 2) (e + 1)
      else if a < 1 / 2048 \<and> - 1074 \<le> e - 64
        then normalise n (a * 18446744073709551616) (e - 64)
      else if a < 137438953472 \<and> - 1074 \<le> e - 16 then normalise n (a * 65536) (e - 16)
      else if a < 562949953421312 \<and> - 1074 \<le> e - 4 then normalise n (a * 16) (e - 4)
      else if a < 4503599627370496 \<and> - 1074 \<le> e - 1 then normalise n (a * 2) (e - 1)
      else (a, e))"

definition pow2 :: "int \<Rightarrow> rat" where
  "pow2 e = (if 0 \<le> e then 2 ^ nat e else 1 / 2 ^ nat (- e))"

definition to_double :: "rat \<Rightarrow> rat" where
  \<comment> \<open>the double nearest to \<open>x\<close>; also the value of a decimal literal\<close>
  "to_double x =
     (if x = 0 then 0
      else (case normalise 64 \<bar>x\<bar> 0 of
              (a, e) \<Rightarrow> sgn x * of_int (round_half_even a) * pow2 e))"

definition fadd :: "rat \<Rightarrow> rat \<Rightarrow> rat" where
  "fadd a b = to_double (a + b)"

definition fsub :: "rat \<Rightarrow> rat \<Rightarrow> rat" where
  "fsub a b = to_double (a - b)"

definition fmul :: "rat \<Rightarrow> rat \<Rightarrow> rat" where
  "fmul a b = to_double (a * b)"

datatype number = Finite rat | PosInfinity | NotANumber

definition js_div :: "nat \<Rightarrow> nat \<Rightarrow> number" where
  \<comment> \<open>\<open>window.innerWidth / window.innerHeight\<close> on two non-negative integers\<close>
  "js_div w h =
     (if h = 0 then (if w = 0 then NotANumber else PosInfinity)
      else Finite (to_double (of_nat w / of_nat h)))"

section \<open>Vectors, quaternions and matrices of the rendering library\<close>

type_synonym vec3 = "rat \<times> rat \<times> rat"

type_synonym quaternion = "rat \<times> rat \<times> rat \<times> rat"

text \<open>
  A \<open>Matrix4\<close> whose fourth row is \<open>(0, 0, 0, 1)\<close>, as every matrix built here is: its first
  three columns and its translation column, each without the fourth entry.
\<close>

type_synonym matrix4 = "vec3 \<times> vec3 \<times> vec3 \<times> vec3"

fun vadd :: "vec3 \<Rightarrow> vec3 \<Rightarrow> vec3" where
  \<comment> \<open>\<open>Vector3.addVectors\<close>\<close>
  "vadd (a, b, c) (x, y, z) = (fadd a x, fadd b y, fadd c z)"

fun vsub :: "vec3 \<Rightarrow> vec3 \<Rightarrow> vec3" where
  \<comment> \<open>\<open>Vector3.sub\<close>\<close>
  "vsub (a, b, c) (x, y, z) = (fsub a x, fsub b y, fsub c z)"

fun vmin :: "vec3 \<Rightarrow> vec3 \<Rightarrow> vec3" where
  "vmin (a, b, c) (x, y, z) = (min a x, min b y, min c z)"

fun vmax :: "vec3 \<Rightarrow> vec3 \<Rightarrow> vec3" where
  "vmax (a, b, c) (x, y, z) = (max a x, max b y, max c z)"

fun multiplyScalar :: "rat \<Rightarrow> vec3 \<Rightarrow> vec3" where
  "multiplyScalar k (x, y, z) = (fmul x k, fmul y k, fmul z k)"

fun row3 :: "rat \<Rightarrow> rat \<Rightarrow> rat \<Rightarrow> vec3 \<Rightarrow> rat" where
  \<comment> \<open>\<open>a1 * x + a2 * y + a3 * z\<close>, summed from the left\<close>
  "row3 a1 a2 a3 (x, y, z) = fadd (fadd (fmul a1 x) (fmul a2 y)) (fmul a3 z)"

fun compose :: "vec3 \<Rightarrow> quaternion \<Rightarrow> vec3 \<Rightarrow> matrix4" where
  \<comment> \<open>\<open>Matrix4.compose(position, quaternion, scale)\<close>\<close>
  "compose (px, py, pz) (x, y, z, w) (sx, sy, sz) =
     (let x2 = fadd x x; y2 = fadd y y; z2 = fadd z z;
          xx = fmul x x2; xy = fmul x y2; xz = fmul x z2;
          yy = fmul y y2; yz = fmul y z2; zz = fmul z z2;
          wx = fmul w x2; wy = fmul w y2; wz = fmul w z2
      in ((fmul (fsub 1 (fadd yy zz)) sx, fmul (fadd xy wz) sx, fmul (fsub xz wy) sx),
          (fmul (fsub xy wz) sy, fmul (fsub 1 (fadd xx zz)) sy, fmul (fadd yz wx) sy),
          (fmul (fadd xz wy) sz, fmul (fsub yz wx) sz, fmul (fsub 1 (fadd xx yy)) sz),
          (px, py, pz)))"

fun multiplyMatrices :: "matrix4 \<Rightarrow> matrix4 \<Rightarrow> matrix4" where
  \<comment> \<open>\<open>Matrix4.multiplyMatrices(a, b)\<close>; the products with the fourth row of \<open>b\<close> are
      exact zeros, and in the translation column the entry of \<open>a\<close> itself\<close>
  "multiplyMatrices ((a11, a21, a31), (a12, a22, a32), (a13, a23, a33), (a14, a24, a34))
       (b1, b2, b3, b4) =
     ((row3 a11 a12 a13 b1, row3 a21 a22 a23 b1, row3 a31 a32 a33 b1),
      (row3 a11 a12 a13 b2, row3 a21 a22 a23 b2, row3 a31 a32 a33 b2),
      (row3 a11 a12 a13 b3, row3 a21 a22 a23 b3, row3 a31 a32 a33 b3),
      (fadd (row3 a11 a12 a13 b4) a14, fadd (row3 a21 a22 a23 b4) a24,
       fadd (row3 a31 a32 a33 b4) a34))"

fun applyMatrix4 :: "matrix4 \<Rightarrow> vec3 \<Rightarrow> vec3" where
  \<comment> \<open>\<open>Vector3.applyMatrix4\<close>; the perspective divisor is exactly 1\<close>
  "applyMatrix4 ((e0, e1, e2), (e4, e5, e6), (e8, e9, e10), (e12, e13, e14)) p =
     (fadd (row3 e0 e4 e8 p) e12, fadd (row3 e1 e5 e9 p) e13, fadd (row3 e2 e6 e10 p) e14)"

section \<open>Scene-graph nodes\<close>

text \<open>
  An \<open>Object3D\<close> of the library: its class (what \<open>instanceof\<close> tests; the geometry
  loader builds groups, meshes, line segments and points), its local transform as position,
  quaternion and scale, the two shadow flags, the vertex positions of its geometry (the
  values its position attribute holds; absent on a group) and its children.
\<close>

datatype node_kind = Group | Mesh | LineSegments | Points

datatype object3d = Object3D
  (kind: node_kind)
  (position: vec3)
  (quaternion: quaternion)
  (scale: vec3)
  (castShadow: bool)
  (receiveShadow: bool)
  (geometry: "vec3 list option")
  (children: "object3d list")

fun scale_set :: "vec3 \<Rightarrow> object3d \<Rightarrow> object3d" where
  \<comment> \<open>\<open>object.scale.set(x, y, z)\<close>\<close>
  "scale_set v (Object3D k p q s cs rs g ch) = Object3D k p q v cs rs g ch"

fun position_sub :: "vec3 \<Rightarrow> object3d \<Rightarrow> object3d" where
  \<comment> \<open>\<open>object.position.sub(v)\<close>\<close>
  "position_sub v (Object3D k p q s cs rs g ch) = Object3D k (vsub p v) q s cs rs g ch"

fun traverse :: "(object3d \<Rightarrow> object3d) \<Rightarrow> object3d \<Rightarrow> object3d" where
  \<comment> \<open>\<open>Object3D.traverse\<close>: the callback on the node itself, then on every child in order.
      The callback updates the fields of the node it is given; the children visited are
      the node's own.\<close>
  "traverse callback (Object3D k p q s cs rs g ch) =
     (case callback (Object3D k p q s cs rs g ch) of
        Object3D k' p' q' s' cs' rs' g' _ \<Rightarrow>
          Object3D k' p' q' s' cs' rs' g' (map (traverse callback) ch))"


subsection \<open>Bounding boxes\<close>

text \<open>
  A \<open>Box3\<close> is empty (\<open>None\<close>) or has a minimum and a maximum corner.
  \<open>Box3.setFromObject\<close> empties the box and expands it by the object: the node's world matrix
  is its own matrix, multiplied from the left by its parent's world matrix if it has a
  parent; the bounding box of the node's geometry is mapped through the world matrix, corner
  by corner, and united with the box; then the box is expanded by each child. The object
  handed to the load callback has no parent.
\<close>

type_synonym box3 = "(vec3 \<times> vec3) option"

fun expandByPoint :: "box3 \<Rightarrow> vec3 \<Rightarrow> box3" where
  "expandByPoint None p = Some (p, p)"
| "expandByPoint (Some (lo, hi)) p = Some (vmin lo p, vmax hi p)"

definition setFromPoints :: "vec3 list \<Rightarrow> box3" where
  "setFromPoints ps = foldl expandByPoint None ps"

fun corners :: "box3 \<Rightarrow> vec3 list" where
  "corners None = []"
| "corners (Some ((a, b, c), (x, y, z))) =
     [(a, b, c), (a, b, z), (a, y, c), (a, y, z), (x, b, c), (x, b, z), (x, y, c), (x, y, z)]"

definition box_applyMatrix4 :: "matrix4 \<Rightarrow> box3 \<Rightarrow> box3" where
  \<comment> \<open>\<open>Box3.applyMatrix4\<close>: an empty box stays empty\<close>
  "box_applyMatrix4 m b = setFromPoints (map (applyMatrix4 m) (corners b))"

fun union :: "box3 \<Rightarrow> box3 \<Rightarrow> box3" where
  \<comment> \<open>\<open>Box3.union\<close>\<close>
  "union None b = b"
| "union (Some a) None = Some a"
| "union (Some (lo, hi)) (Some (lo', hi')) = Some (vmin lo lo', vmax hi hi')"

fun world_boxes :: "matrix4 option \<Rightarrow> object3d \<Rightarrow> box3 list" where
  \<comment> \<open>the boxes \<open>expandByObject\<close> unites, in its order: the node's own, then its children's\<close>
  "world_boxes parent (Object3D k p q s cs rs g ch) =
     (let local = compose p q s;
          world = (case parent of None \<Rightarrow> local | Some m \<Rightarrow> multiplyMatrices m local)
      in (case g of None \<Rightarrow> [] | Some vs \<Rightarrow> [box_applyMatrix4 world (setFromPoints vs)])
         @ concat (map (world_boxes (Some world)) ch))"

definition setFromObject :: "object3d \<Rightarrow> box3" where
  "setFromObject obj = foldl union None (world_boxes None obj)"

fun getCenter :: "box3 \<Rightarrow> vec3" where
  \<comment> \<open>\<open>Box3.getCenter\<close>: the zero vector for an empty box\<close>
  "getCenter None = (0, 0, 0)"
| "getCenter (Some (lo, hi)) = multiplyScalar (1 / 2) (vadd lo hi)"

section \<open>The scene context\<close>

text \<open>
  The objects the effect of \<open>ThreeScene\<close> constructs. Each constructor gives the library's
  defaults for the fields the component writes afterwards. The projection matrix is kept as
  the four parameters it was last computed from, so a matrix that lags behind the camera's
  fields is visible; an orientation is the identity or the result of a \<open>lookAt\<close>.
\<close>

datatype projection = Perspective rat number rat rat

datatype orientation = Unrotated | LookAt vec3 vec3

record camera =
  fov :: rat
  aspect :: number
  near :: rat
  far :: rat
  camera_position :: vec3
  camera_orientation :: orientation
  projectionMatrix :: projection

definition updateProjectionMatrix :: "camera \<Rightarrow> camera" where
  "updateProjectionMatrix cam =
     cam\<lparr>projectionMatrix := Perspective (fov cam) (aspect cam) (near cam) (far cam)\<rparr>"

definition PerspectiveCamera :: "rat \<Rightarrow> number \<Rightarrow> rat \<Rightarrow> rat \<Rightarrow> camera" where
  "PerspectiveCamera f a n fr =
     updateProjectionMatrix
       \<lparr>fov = f, aspect = a, near = n, far = fr, camera_position = (0, 0, 0),
        camera_orientation = Unrotated, projectionMatrix = Perspective f a n fr\<rparr>"

definition lookAt :: "vec3 \<Rightarrow> camera \<Rightarrow> camera" where
  "lookAt target cam = cam\<lparr>camera_orientation := LookAt (camera_position cam) target\<rparr>"

datatype shadow_map_type = BasicShadowMap | PCFShadowMap | PCFSoftShadowMap | VSMShadowMap

record renderer =
  antialias :: bool
  surface_width :: nat
  surface_height :: nat
  shadowMap_enabled :: bool
  shadowMap_type :: shadow_map_type
  frames_drawn :: nat
  renderer_disposed :: bool

definition WebGLRenderer :: "bool \<Rightarrow> renderer" where
  \<comment> \<open>a new canvas is 300 by 150 until \<open>setSize\<close>\<close>
  "WebGLRenderer aa =
     \<lparr>antialias = aa, surface_width = 300, surface_height = 150, shadowMap_enabled = False,
      shadowMap_type = PCFShadowMap, frames_drawn = 0, renderer_disposed = False\<rparr>"

definition setSize :: "nat \<Rightarrow> nat \<Rightarrow> renderer \<Rightarrow> renderer" where
  \<comment> \<open>the pixel ratio stays at its default 1: the component never sets it\<close>
  "setSize w h r = r\<lparr>surface_width := w, surface_height := h\<rparr>"

record controls =
  enableDamping :: bool
  dampingFactor :: rat
  controls_disposed :: bool

definition OrbitControls :: controls where
  "OrbitControls =
     \<lparr>enableDamping = False, dampingFactor = to_double (1 / 20), controls_disposed = False\<rparr>"

record directional_light =
  light_color :: nat
  light_intensity :: rat
  light_position :: vec3
  light_castShadow :: bool
  shadow_left :: rat
  shadow_right :: rat
  shadow_top :: rat
  shadow_bottom :: rat

definition DirectionalLight :: "nat \<Rightarrow> rat \<Rightarrow> directional_light" where
  "DirectionalLight c i =
     \<lparr>light_color = c, light_intensity = i, light_position = (0, 1, 0),
      light_castShadow = False, shadow_left = - 5, shadow_right = 5, shadow_top = 5,
      shadow_bottom = - 5\<rparr>"

datatype scene_node =
  AmbientLight nat rat
| Directional directional_light
| Model object3d

record scene =
  background :: "nat option"
  scene_children :: "scene_node list"

definition Scene :: scene where
  "Scene = \<lparr>background = None, scene_children = []\<rparr>"

definition scene_add :: "scene_node \<Rightarrow> scene \<Rightarrow> scene" where
  \<comment> \<open>\<open>scene.add(x)\<close>: a node without a parent is appended\<close>
  "scene_add x sc = sc\<lparr>scene_children := scene_children sc @ [x]\<rparr>"

text \<open>
  A loader's request is not started, in flight, or finished one way or the other. The
  material creator the first loader hands over is a list of material names and whether
  they have been preloaded.
\<close>

datatype load_status = NotStarted | InFlight | Succeeded | Failed

record materials =
  material_names :: "string list"
  preloaded :: bool

definition preload :: "materials \<Rightarrow> materials" where
  "preload m = m\<lparr>preloaded := True\<rparr>"

datatype console_entry =
  LoadingMTL nat nat
| LoadingOBJ nat nat
| ErrorLoadingMTL
| ErrorLoadingOBJ

record scene_context =
  the_scene :: scene
  the_camera :: camera
  the_renderer :: renderer
  the_controls :: controls
  objLoader_materials :: "materials option"
  mtl_request :: load_status
  obj_request :: load_status
  resize_registered :: bool
  animating :: bool

section \<open>The Scene host: \<open>ThreeScene\<close>\<close>

text \<open>
  One mounted instance: the two \<open>useState\<close> cells, the container \<open>div\<close> behind \<open>mountRef\<close>
  (its child nodes, and whether \<open>mountRef.current\<close> still points at it), the console, and
  the closure of the effect, absent when the effect returned at its first line.
\<close>

datatype dom_node = RendererCanvas | OtherNode nat

record three_scene =
  loading :: bool
  error :: "string option"
  ref_attached :: bool
  container :: "dom_node list"
  console :: "console_entry list"
  effect :: "scene_context option"

text \<open>
  What a mount finds: the viewport, whether React has set \<open>mountRef.current\<close>, the children
  the container already has, and where the navigation controller puts the camera at the
  first frame (the position and the orbit target its first \<open>update\<close> yields).
\<close>

record environment =
  innerWidth :: nat
  innerHeight :: nat
  ref_set :: bool
  old_children :: "dom_node list"
  first_frame :: "vec3 \<times> vec3"

fun remove_all_children :: "dom_node list \<Rightarrow> dom_node list" where
  \<comment> \<open>\<open>while (firstChild) removeChild(firstChild)\<close>\<close>
  "remove_all_children [] = []"
| "remove_all_children (c # cs) = remove_all_children cs"

definition render_component :: "environment \<Rightarrow> three_scene" where
  \<comment> \<open>the first render: \<open>useState(true)\<close>, \<open>useState(null)\<close>, and the \<open>div\<close> in the document\<close>
  "render_component env =
     \<lparr>loading = True, error = None, ref_attached = ref_set env,
      container = old_children env, console = [], effect = None\<rparr>"

definition build_camera :: "environment \<Rightarrow> camera" where
  "build_camera env =
     lookAt (0, 0, 0)
       ((PerspectiveCamera 45 (js_div (innerWidth env) (innerHeight env))
           (to_double (1 / 10)) 1000)
          \<lparr>camera_position := (10, 10, 10)\<rparr>)"

definition build_renderer :: "environment \<Rightarrow> renderer" where
  "build_renderer env =
     (setSize (innerWidth env) (innerHeight env) (WebGLRenderer True))
       \<lparr>shadowMap_enabled := True, shadowMap_type := PCFSoftShadowMap\<rparr>"

definition build_controls :: controls where
  "build_controls =
     OrbitControls\<lparr>enableDamping := True, dampingFactor := to_double (1 / 20)\<rparr>"

definition build_directional_light :: directional_light where
  \<comment> \<open>\<open>0xffffff\<close> is 16777215\<close>
  "build_directional_light =
     (DirectionalLight 16777215 (to_double (4 / 5)))
       \<lparr>light_position := (10, 10, 5), light_castShadow := True, shadow_left := - 10,
        shadow_right := 10, shadow_top := 10, shadow_bottom := - 10\<rparr>"

definition build_scene :: scene where
  \<comment> \<open>\<open>0xf0f0f0\<close> is 15790320\<close>
  "build_scene =
     scene_add (Directional build_directional_light)
       (scene_add (AmbientLight 16777215 (to_double (3 / 5)))
          (Scene\<lparr>background := Some 15790320\<rparr>))"

subsection \<open>The callbacks\<close>

definition update_context :: "(scene_context \<Rightarrow> scene_context) \<Rightarrow> three_scene \<Rightarrow> three_scene" where
  \<comment> \<open>a write to the objects the effect's closure holds\<close>
  "update_context f s = s\<lparr>effect := map_option f (effect s)\<rparr>"

definition shadow_callback :: "object3d \<Rightarrow> object3d" where
  \<comment> \<open>\<open>if (child instanceof THREE.Mesh) { castShadow = true; receiveShadow = true }\<close>\<close>
  "shadow_callback child =
     (if kind child = Mesh
      then (case child of Object3D k p r s cs rs g ch \<Rightarrow> Object3D k p r s True True g ch)
      else child)"

definition place_model :: "object3d \<Rightarrow> object3d" where
  \<comment> \<open>the loaded object as the success callback leaves it before \<open>scene.add\<close>\<close>
  "place_model object =
     (let scaled =
            scale_set (to_double (1 / 1000), to_double (1 / 1000), to_double (1 / 1000)) object;
          box = setFromObject scaled;
          center = getCenter box;
          centred = position_sub center scaled
      in traverse shadow_callback centred)"

definition on_obj_load :: "object3d \<Rightarrow> three_scene \<Rightarrow> three_scene" where
  "on_obj_load object s =
     (update_context
        (\<lambda>c. c\<lparr>the_scene := scene_add (Model (place_model object)) (the_scene c)\<rparr>) s)
       \<lparr>loading := False\<rparr>"

definition on_obj_progress :: "nat \<Rightarrow> nat \<Rightarrow> three_scene \<Rightarrow> three_scene" where
  "on_obj_progress l t s = s\<lparr>console := console s @ [LoadingOBJ l t]\<rparr>"

definition on_obj_error :: "three_scene \<Rightarrow> three_scene" where
  "on_obj_error s =
     s\<lparr>console := console s @ [ErrorLoadingOBJ],
       error := Some ''Failed to load OBJ file'', loading := False\<rparr>"

definition on_mtl_load :: "materials \<Rightarrow> three_scene \<Rightarrow> three_scene" where
  \<comment> \<open>\<open>materials.preload()\<close>, \<open>objLoader.setMaterials(materials)\<close>, then \<open>objLoader.load\<close>
      puts the geometry request in flight\<close>
  "on_mtl_load m s =
     update_context
       (\<lambda>c. c\<lparr>objLoader_materials := Some (preload m), obj_request := InFlight\<rparr>) s"

definition on_mtl_progress :: "nat \<Rightarrow> nat \<Rightarrow> three_scene \<Rightarrow> three_scene" where
  "on_mtl_progress l t s = s\<lparr>console := console s @ [LoadingMTL l t]\<rparr>"

definition on_mtl_error :: "three_scene \<Rightarrow> three_scene" where
  "on_mtl_error s =
     s\<lparr>console := console s @ [ErrorLoadingMTL],
       error := Some ''Failed to load MTL file'', loading := False\<rparr>"

definition controls_update :: "vec3 \<Rightarrow> vec3 \<Rightarrow> camera \<Rightarrow> camera" where
  \<comment> \<open>\<open>controls.update()\<close>: the controller moves the camera to the position it computes
      for this frame and turns it to the orbit target; both are given, not computed here\<close>
  "controls_update eye target cam = lookAt target (cam\<lparr>camera_position := eye\<rparr>)"

definition animate :: "vec3 \<Rightarrow> vec3 \<Rightarrow> three_scene \<Rightarrow> three_scene" where
  \<comment> \<open>one frame: \<open>requestAnimationFrame(animate)\<close> keeps the loop going, then the
      controller and the draw\<close>
  "animate eye target s =
     update_context
       (\<lambda>c. c\<lparr>animating := True,
              the_camera := controls_update eye target (the_camera c),
              the_renderer := (the_renderer c)\<lparr>frames_drawn := Suc (frames_drawn (the_renderer c))\<rparr>\<rparr>)
       s"

definition handleResize :: "nat \<Rightarrow> nat \<Rightarrow> three_scene \<Rightarrow> three_scene" where
  "handleResize w h s =
     update_context
       (\<lambda>c. c\<lparr>the_camera := updateProjectionMatrix ((the_camera c)\<lparr>aspect := js_div w h\<rparr>),
              the_renderer := setSize w h (the_renderer c)\<rparr>)
       s"

definition cleanup :: "three_scene \<Rightarrow> three_scene" where
  "cleanup s =
     (let s1 = update_context
                 (\<lambda>c. c\<lparr>resize_registered := False,
                        the_controls := (the_controls c)\<lparr>controls_disposed := True\<rparr>\<rparr>) s;
          s2 = (if ref_attached s1 \<and> RendererCanvas \<in> set (container s1)
                then s1\<lparr>container := remove1 RendererCanvas (container s1)\<rparr> else s1)
      in update_context
           (\<lambda>c. c\<lparr>the_renderer := (the_renderer c)\<lparr>renderer_disposed := True\<rparr>\<rparr>) s2)"

subsection \<open>The effect\<close>

definition initialise :: "environment \<Rightarrow> three_scene \<Rightarrow> three_scene" where
  \<comment> \<open>the effect from the clearing of the container to \<open>addEventListener\<close>;
      \<open>mtlLoader.load\<close> puts the material request in flight\<close>
  "initialise env s =
     s\<lparr>container := remove_all_children (container s) @ [RendererCanvas],
       effect := Some
         \<lparr>the_scene = build_scene, the_camera = build_camera env,
          the_renderer = build_renderer env, the_controls = build_controls,
          objLoader_materials = None, mtl_request = InFlight,
          obj_request = NotStarted, resize_registered = True,
          animating = False\<rparr>\<rparr>"

definition useEffect_body :: "environment \<Rightarrow> three_scene \<Rightarrow> three_scene" where
  \<comment> \<open>the effect, up to the \<open>return\<close> of its cleanup: the guard on the ref, the set-up, and
      the closing \<open>animate()\<close>, which draws the first frame\<close>
  "useEffect_body env s =
     (if \<not> ref_attached s then s
      else animate (fst (first_frame env)) (snd (first_frame env)) (initialise env s))"

definition mount :: "environment \<Rightarrow> three_scene" where
  "mount env = useEffect_body env (render_component env)"

subsection \<open>What the runtime delivers\<close>

text \<open>
  The browser and the loaders call the callbacks. A loader reports progress while its
  request is in flight and then calls exactly one of its success and error callbacks, once;
  a resize reaches \<open>handleResize\<close> while it is registered on the window; a frame runs
  \<open>animate\<close> once the loop has been started, and nothing cancels the loop; React may clear
  \<open>mountRef.current\<close>, and runs the cleanup the effect returned.
\<close>

datatype event =
  MtlLoaded materials
| MtlProgress nat nat
| MtlError
| ObjLoaded object3d
| ObjProgress nat nat
| ObjError
| Resize nat nat
| AnimationFrame vec3 vec3
| DetachRef
| Unmount

definition mtl_status :: "three_scene \<Rightarrow> load_status" where
  "mtl_status s = (case effect s of None \<Rightarrow> NotStarted | Some c \<Rightarrow> mtl_request c)"

definition obj_status :: "three_scene \<Rightarrow> load_status" where
  "obj_status s = (case effect s of None \<Rightarrow> NotStarted | Some c \<Rightarrow> obj_request c)"

definition scene_nodes :: "three_scene \<Rightarrow> scene_node list" where
  "scene_nodes s = (case effect s of None \<Rightarrow> [] | Some c \<Rightarrow> scene_children (the_scene c))"

definition listening :: "three_scene \<Rightarrow> bool" where
  "listening s = (case effect s of None \<Rightarrow> False | Some c \<Rightarrow> resize_registered c)"

definition frame_loop :: "three_scene \<Rightarrow> bool" where
  "frame_loop s = (case effect s of None \<Rightarrow> False | Some c \<Rightarrow> animating c)"

definition settle_mtl :: "load_status \<Rightarrow> three_scene \<Rightarrow> three_scene" where
  "settle_mtl st s = update_context (\<lambda>c. c\<lparr>mtl_request := st\<rparr>) s"

definition settle_obj :: "load_status \<Rightarrow> three_scene \<Rightarrow> three_scene" where
  "settle_obj st s = update_context (\<lambda>c. c\<lparr>obj_request := st\<rparr>) s"

fun step :: "event \<Rightarrow> three_scene \<Rightarrow> three_scene" where
  "step (MtlLoaded m) s =
     (if mtl_status s = InFlight then on_mtl_load m (settle_mtl Succeeded s) else s)"
| "step (MtlProgress l t) s =
     (if mtl_status s = InFlight then on_mtl_progress l t s else s)"
| "step MtlError s =
     (if mtl_status s = InFlight then on_mtl_error (settle_mtl Failed s) else s)"
| "step (ObjLoaded object) s =
     (if obj_status s = InFlight then on_obj_load object (settle_obj Succeeded s) else s)"
| "step (ObjProgress l t) s =
     (if obj_status s = InFlight then on_obj_progress l t s else s)"
| "step ObjError s =
     (if obj_status s = InFlight then on_obj_error (settle_obj Failed s) else s)"
| "step (Resize w h) s = (if listening s then handleResize w h s else s)"
| "step (AnimationFrame eye target) s = (if frame_loop s then animate eye target s else s)"
| "step DetachRef s = s\<lparr>ref_attached := False\<rparr>"
| "step Unmount s = (case effect s of None \<Rightarrow> s | Some c \<Rightarrow> cleanup s)"

fun run :: "event list \<Rightarrow> three_scene \<Rightarrow> three_scene" where
  "run [] s = s"
| "run (e # es) s = run es (step e s)"

section \<open>The Root view: \<open>App\<close>\<close>

datatype vnode =
  Fragment "vnode list"
| Element string "vnode list"
| Button bool "vnode list"
| Text string
| ThreeSceneElement

text \<open>A \<open>Button b\<close> is a \<open>button\<close> whose \<open>onClick\<close> is \<open>setShowThree(b)\<close>.\<close>

definition scene_subtree :: vnode where
  "scene_subtree =
     Fragment
       [Element ''div''
          [Element ''h1'' [Text ''Three.js Demo''],
           Button False [Text ''Switch to React Demo'']],
        ThreeSceneElement]"

definition panel_subtree :: vnode where
  "panel_subtree =
     Element ''div''
       [Element ''h1'' [Text ''React Demo''],
        Button True [Text ''Switch to Three.js Demo'']]"

definition App_render :: "bool \<Rightarrow> vnode list" where
  \<comment> \<open>the children of the outer fragment\<close>
  "App_render showThree = [if showThree then scene_subtree else panel_subtree]"

fun hosts :: "vnode \<Rightarrow> nat" where
  \<comment> \<open>how many \<open>ThreeScene\<close> elements a tree holds\<close>
  "hosts (Fragment vs) = sum_list (map hosts vs)"
| "hosts (Element t vs) = sum_list (map hosts vs)"
| "hosts (Button b vs) = sum_list (map hosts vs)"
| "hosts (Text t) = 0"
| "hosts ThreeSceneElement = 1"

fun onClicks :: "vnode \<Rightarrow> bool list" where
  \<comment> \<open>the click handlers of a tree, as the value each gives to \<open>setShowThree\<close>\<close>
  "onClicks (Fragment vs) = concat (map onClicks vs)"
| "onClicks (Element t vs) = concat (map onClicks vs)"
| "onClicks (Button b vs) = b # concat (map onClicks vs)"
| "onClicks (Text t) = []"
| "onClicks ThreeSceneElement = []"

text \<open>
  The Root view with what React keeps for it: the \<open>useState\<close> cell, the mounted instance of
  \<open>ThreeScene\<close> if the rendered tree holds one, and the instances already torn down.
\<close>

record app =
  showThree :: bool
  host :: "three_scene option"
  retired :: "three_scene list"

definition commit :: "environment \<Rightarrow> app \<Rightarrow> app" where
  \<comment> \<open>React brings the mounted components in line with the rendered tree: a new
      \<open>ThreeScene\<close> element is mounted; for a vanished one React clears the ref of the
      removed \<open>div\<close> and then runs the cleanup of the effect\<close>
  "commit env a =
     (if 0 < sum_list (map hosts (App_render (showThree a)))
      then (case host a of None \<Rightarrow> a\<lparr>host := Some (mount env)\<rparr> | Some h \<Rightarrow> a)
      else (case host a of None \<Rightarrow> a
            | Some h \<Rightarrow>
                a\<lparr>host := None, retired := retired a @ [step Unmount (step DetachRef h)]\<rparr>))"

definition App_init :: "environment \<Rightarrow> app" where
  \<comment> \<open>\<open>useState(true)\<close> and the first commit\<close>
  "App_init env = commit env \<lparr>showThree = True, host = None, retired = []\<rparr>"

definition setShowThree :: "environment \<Rightarrow> bool \<Rightarrow> app \<Rightarrow> app" where
  "setShowThree env b a = commit env (a\<lparr>showThree := b\<rparr>)"

definition toggle :: "environment \<Rightarrow> app \<Rightarrow> app" where
  \<comment> \<open>a click on the one button the current tree shows\<close>
  "toggle env a =
     (case concat (map onClicks (App_render (showThree a))) of
        [b] \<Rightarrow> setShowThree env b a
      | _ \<Rightarrow> a)"

section \<open>Reading a session\<close>

fun models :: "scene_node list \<Rightarrow> object3d list" where
  \<comment> \<open>the loaded objects among the nodes of a scene\<close>
  "models [] = []"
| "models (Model obj # ns) = obj # models ns"
| "models (n # ns) = models ns"

definition controls_released :: "three_scene \<Rightarrow> bool" where
  "controls_released s =
     (case effect s of None \<Rightarrow> False | Some c \<Rightarrow> controls_disposed (the_controls c))"

definition surface_released :: "three_scene \<Rightarrow> bool" where
  "surface_released s =
     (case effect s of None \<Rightarrow> False | Some c \<Rightarrow> renderer_disposed (the_renderer c))"

definition camera_of :: "three_scene \<Rightarrow> camera option" where
  "camera_of s = map_option the_camera (effect s)"

definition surface_size :: "three_scene \<Rightarrow> (nat \<times> nat) option" where
  "surface_size s =
     map_option (\<lambda>c. (surface_width (the_renderer c), surface_height (the_renderer c)))
       (effect s)"

text \<open>
  The states of a session, \<open>INIT \<rightarrow> LOADING \<rightarrow> {READY | FAILED}\<close>, as the two requests and the
  two flags show them together.
\<close>

definition consistent :: "three_scene \<Rightarrow> bool" where
  "consistent s =
     (case (mtl_status s, obj_status s) of
        (NotStarted, NotStarted) \<Rightarrow> effect s = None \<and> loading s \<and> error s = None
      | (InFlight, NotStarted) \<Rightarrow>
          loading s \<and> error s = None \<and> models (scene_nodes s) = []
      | (Failed, NotStarted) \<Rightarrow>
          \<not> loading s \<and> error s = Some ''Failed to load MTL file''
          \<and> models (scene_nodes s) = []
      | (Succeeded, InFlight) \<Rightarrow>
          loading s \<and> error s = None \<and> models (scene_nodes s) = []
      | (Succeeded, Succeeded) \<Rightarrow>
          \<not> loading s \<and> error s = None \<and> length (models (scene_nodes s)) = 1
      | (Succeeded, Failed) \<Rightarrow>
          \<not> loading s \<and> error s = Some ''Failed to load OBJ file''
          \<and> models (scene_nodes s) = []
      | _ \<Rightarrow> False)"


section \<open>Example inputs\<close>

definition example_env :: environment where
  \<comment> \<open>the first frame leaves the camera at \<open>(10, 10, 10.000000000000002)\<close>\<close>
  "example_env =
     \<lparr>innerWidth = 800, innerHeight = 600, ref_set = True, old_children = [OtherNode 7],
      first_frame = ((10, 10, 5629499534213121 / 562949953421312), (0, 0, 0))\<rparr>"

definition example_materials :: materials where
  "example_materials = \<lparr>material_names = [''wall''], preloaded = False\<rparr>"

definition example_mesh :: object3d where
  "example_mesh =
     Object3D Mesh (0, 0, 0) (0, 0, 0, 1) (1, 1, 1) False False
       (Some [(1, 1, 1), (4, 7, 10)]) []"

definition example_object :: object3d where
  "example_object =
     Object3D Group (0, 0, 0) (0, 0, 0, 1) (1, 1, 1) False False None [example_mesh]"

section \<open>Evaluating the model\<close>

lemmas reader_defs =
  mtl_status_def obj_status_def scene_nodes_def listening_def frame_loop_def
  controls_released_def surface_released_def camera_of_def surface_size_def

lemmas callback_defs =
  update_context_def on_obj_load_def on_obj_progress_def on_obj_error_def on_mtl_load_def
  on_mtl_progress_def on_mtl_error_def animate_def handleResize_def cleanup_def
  settle_mtl_def settle_obj_def scene_add_def

lemmas mount_defs =
  mount_def useEffect_body_def initialise_def render_component_def controls_update_def
  build_scene_def build_camera_def build_renderer_def build_controls_def
  build_directional_light_def Scene_def PerspectiveCamera_def updateProjectionMatrix_def
  lookAt_def WebGLRenderer_def setSize_def OrbitControls_def DirectionalLight_def

lemmas example_defs = example_env_def example_materials_def example_mesh_def example_object_def

lemma normalise_numeral:
  "normalise (numeral k) a e =
     (if 83076749736557242056487941267521536 \<le> a
        then normalise (pred_numeral k) (a / 18446744073709551616) (e + 64)
      else if 295147905179352825856 \<le> a then normalise (pred_numeral k) (a / 65536) (e + 16)
      else if 72057594037927936 \<le> a then normalise (pred_numeral k) (a / 16) (e + 4)
      else if 9007199254740992 \<le> a then normalise (pred_numeral k) (a / 2) (e + 1)
      else if a < 1 / 2048 \<and> - 1074 \<le> e - 64
        then normalise (pred_numeral k) (a * 18446744073709551616) (e - 64)
      else if a < 137438953472 \<and> - 1074 \<le> e - 16
        then normalise (pred_numeral k) (a * 65536) (e - 16)
      else if a < 562949953421312 \<and> - 1074 \<le> e - 4
        then normalise (pred_numeral k) (a * 16) (e - 4)
      else if a < 4503599627370496 \<and> - 1074 \<le> e - 1
        then normalise (pred_numeral k) (a * 2) (e - 1)
      else (a, e))"
  by (simp add: numeral_eq_Suc)

lemma floor_numeral_quotient:
  "\<lfloor>numeral a / numeral b :: rat\<rfloor> = numeral a div numeral b"
  using floor_divide_of_int_eq [of "numeral a" "numeral b", where ?'a = rat] by simp

lemma to_double_minus: "to_double (- x) = - to_double x"
  by (simp add: to_double_def split: prod.splits)

lemma to_double_zero: "to_double 0 = 0"
  by (simp add: to_double_def)

lemmas to_double_ground =
  to_double_def [of 1] to_double_def [of "numeral k" for k]
  to_double_def [of "1 / numeral k" for k] to_double_def [of "numeral a / numeral b" for a b]

lemmas double_eval =
  fadd_def fsub_def fmul_def to_double_zero to_double_minus to_double_ground
  normalise_numeral pow2_def round_half_even_def Let_def floor_numeral_quotient


lemma camera_roundings:
  "to_double (1 / 10) = 3602879701896397 / 36028797018963968"
  "to_double (4 / 3) = 6004799503160661 / 4503599627370496"
  "to_double (3 / 2) = 3 / 2"
  by (simp_all add: double_eval)





section \<open>Facts about the placed object\<close>








section \<open>The session keeps to its state machine\<close>

lemma models_append: "models (xs @ ys) = models xs @ models ys"
  by (induction xs rule: models.induct) simp_all

lemma consistent_mount: "consistent (mount env)"
  by (simp add: consistent_def mount_def useEffect_body_def initialise_def render_component_def animate_def
      update_context_def reader_defs build_scene_def scene_add_def Scene_def)

lemma consistent_step: "consistent s \<Longrightarrow> consistent (step e s)"
proof (cases "effect s")
  case None
  assume "consistent s"
  with None show ?thesis
    by (cases e) (simp_all add: consistent_def reader_defs callback_defs)
next
  case (Some c)
  assume "consistent s"
  with Some show ?thesis
    by (cases e; cases "mtl_request c"; cases "obj_request c")
       (simp_all add: consistent_def reader_defs callback_defs Let_def models_append)
qed

lemma consistent_run: "consistent s \<Longrightarrow> consistent (run es s)"
  by (induction es arbitrary: s) (simp_all add: consistent_step)

lemma consistent_reachable: "consistent (run es (mount env))"
  by (simp add: consistent_run consistent_mount)

lemma mtl_settled_step:
  "mtl_status s = Failed \<Longrightarrow> mtl_status (step e s) = Failed"
  "mtl_status s = Succeeded \<Longrightarrow> mtl_status (step e s) = Succeeded"
   apply (cases e; cases "effect s"; simp add: reader_defs callback_defs Let_def)
  apply (cases e; cases "effect s"; simp add: reader_defs callback_defs Let_def)
  done

lemma mtl_settled_run:
  "mtl_status s = Failed \<Longrightarrow> mtl_status (run es s) = Failed"
  "mtl_status s = Succeeded \<Longrightarrow> mtl_status (run es s) = Succeeded"
   apply (induction es arbitrary: s; simp add: mtl_settled_step)
  apply (induction es arbitrary: s; simp add: mtl_settled_step)
  done

lemma obj_failed_step:
  "consistent s \<Longrightarrow> obj_status s = Failed \<Longrightarrow> obj_status (step e s) = Failed"
  by (cases e; cases "effect s"; cases "mtl_status s";
      simp add: consistent_def reader_defs callback_defs Let_def)

lemma obj_failed_run:
  "consistent s \<Longrightarrow> obj_status s = Failed \<Longrightarrow> obj_status (run es s) = Failed"
  by (induction es arbitrary: s) (simp_all add: obj_failed_step consistent_step)

lemma consistent_cases:
  assumes "consistent s"
  shows "mtl_status s = Failed \<Longrightarrow> obj_status s = NotStarted"
    and "mtl_status s = InFlight \<Longrightarrow> obj_status s = NotStarted"
    and "obj_status s \<noteq> NotStarted \<Longrightarrow> mtl_status s = Succeeded"
    and "obj_status s = Failed \<Longrightarrow> models (scene_nodes s) = []"
  using assms
  by (cases "mtl_status s"; cases "obj_status s"; simp add: consistent_def)+

lemma mtl_error_step:
  assumes "mtl_status s = InFlight"
  shows "error (step MtlError s) = Some ''Failed to load MTL file''"
    and "\<not> loading (step MtlError s)"
    and "mtl_status (step MtlError s) = Failed"
  using assms
  by (cases "effect s"; simp add: reader_defs callback_defs)+

lemma obj_error_step:
  assumes "obj_status s = InFlight"
  shows "error (step ObjError s) = Some ''Failed to load OBJ file''"
    and "\<not> loading (step ObjError s)"
    and "obj_status (step ObjError s) = Failed"
    and "scene_nodes (step ObjError s) = scene_nodes s"
    and "mtl_status (step ObjError s) = mtl_status s"
  using assms
  by (cases "effect s"; simp add: reader_defs callback_defs)+

section \<open>The load callbacks\<close>




text \<open>
  C2. In every session, whatever the runtime has delivered so far, the geometry request has
  left its initial state only if the material request has succeeded. If the material request
  is in flight and fails, the error flag is \<open>Failed to load MTL file\<close>, the loading flag is
  false, and the geometry request is never started, whatever is delivered later.
\<close>

theorem geometry_after_material:
  "(obj_status (run es (mount env)) \<noteq> NotStarted \<longrightarrow>
      mtl_status (run es (mount env)) = Succeeded)
   \<and> (mtl_status (run es (mount env)) = InFlight \<longrightarrow>
      error (step MtlError (run es (mount env))) = Some ''Failed to load MTL file''
      \<and> \<not> loading (step MtlError (run es (mount env)))
      \<and> obj_status (run es' (step MtlError (run es (mount env)))) = NotStarted)"
proof -
  let ?s = "run es (mount env)"
  have ok: "consistent ?s" by (rule consistent_reachable)
  have "obj_status (run es' (step MtlError ?s)) = NotStarted" if "mtl_status ?s = InFlight"
  proof -
    have "mtl_status (run es' (step MtlError ?s)) = Failed"
      using that by (simp add: mtl_settled_run mtl_error_step del: step.simps)
    moreover have "consistent (run es' (step MtlError ?s))"
      using ok by (simp add: consistent_run consistent_step del: step.simps)
    ultimately show ?thesis by (rule consistent_cases(1) [rotated])
  qed
  then show ?thesis
    using consistent_cases(3) [OF ok] by (simp add: mtl_error_step del: step.simps)
qed

theorem geometry_after_material_witness:
  "obj_status (run [MtlLoaded example_materials] (mount example_env)) \<noteq> NotStarted
   \<and> mtl_status (run [MtlLoaded example_materials] (mount example_env)) = Succeeded
   \<and> mtl_status (run [MtlProgress 10 100] (mount example_env)) = InFlight
   \<and> error (step MtlError (run [MtlProgress 10 100] (mount example_env)))
       = Some ''Failed to load MTL file''
   \<and> \<not> loading (step MtlError (run [MtlProgress 10 100] (mount example_env)))
   \<and> obj_status (run [ObjLoaded example_object, MtlLoaded example_materials]
        (step MtlError (run [MtlProgress 10 100] (mount example_env)))) = NotStarted"
proof -
  have a: "obj_status (run [MtlLoaded example_materials] (mount example_env)) \<noteq> NotStarted"
    by (simp add: mount_defs reader_defs callback_defs example_defs)
  have b: "mtl_status (run [MtlProgress 10 100] (mount example_env)) = InFlight"
    by (simp add: mount_defs reader_defs callback_defs example_defs)
  from a b
    geometry_after_material [of "[MtlLoaded example_materials]" example_env "[]"]
    geometry_after_material [of "[MtlProgress 10 100]" example_env
      "[ObjLoaded example_object, MtlLoaded example_materials]"]
  show ?thesis by blast
qed

text \<open>
  C3. If the geometry request is in flight and fails, the error flag is
  \<open>Failed to load OBJ file\<close> and the loading flag is false; the scene is as it was, and
  whatever is delivered later, the scene holds no loaded object, the geometry request stays
  failed and the material request stays succeeded: no request is started again.
\<close>

theorem obj_load_failure:
  assumes "obj_status (run es (mount env)) = InFlight"
  shows "error (step ObjError (run es (mount env))) = Some ''Failed to load OBJ file''
    \<and> \<not> loading (step ObjError (run es (mount env)))
    \<and> scene_nodes (step ObjError (run es (mount env))) = scene_nodes (run es (mount env))
    \<and> models (scene_nodes (run es' (step ObjError (run es (mount env))))) = []
    \<and> obj_status (run es' (step ObjError (run es (mount env)))) = Failed
    \<and> mtl_status (run es' (step ObjError (run es (mount env)))) = Succeeded"
proof -
  let ?s = "run es (mount env)"
  have ok: "consistent ?s" by (rule consistent_reachable)
  have ok': "consistent (run es' (step ObjError ?s))"
    using ok by (simp add: consistent_run consistent_step del: step.simps)
  have f: "obj_status (run es' (step ObjError ?s)) = Failed"
    using assms ok by (simp add: obj_failed_run consistent_step obj_error_step del: step.simps)
  have "mtl_status (run es' (step ObjError ?s)) = Succeeded"
    using consistent_cases(3) [OF ok'] f by simp
  moreover have "models (scene_nodes (run es' (step ObjError ?s))) = []"
    using consistent_cases(4) [OF ok' f] .
  ultimately show ?thesis
    using assms f by (simp add: obj_error_step del: step.simps)
qed

theorem obj_load_failure_witness:
  "obj_status (run [MtlLoaded example_materials] (mount example_env)) = InFlight
   \<and> error (step ObjError (run [MtlLoaded example_materials] (mount example_env)))
       = Some ''Failed to load OBJ file''
   \<and> \<not> loading (step ObjError (run [MtlLoaded example_materials] (mount example_env)))
   \<and> models (scene_nodes (run [ObjLoaded example_object, ObjError]
        (step ObjError (run [MtlLoaded example_materials] (mount example_env))))) = []"
proof -
  have h: "obj_status (run [MtlLoaded example_materials] (mount example_env)) = InFlight"
    by (simp add: mount_defs reader_defs callback_defs example_defs)
  from h obj_load_failure [OF h, of "[ObjLoaded example_object, ObjError]"]
  show ?thesis by blast
qed

text \<open>
  C4. At the first render and after the effect has run, before any callback, the loading
  flag is true and the error flag is unset.
\<close>

theorem initial_flags:
  "loading (render_component env) \<and> error (render_component env) = None
   \<and> loading (mount env) \<and> error (mount env) = None"
  by (simp add: mount_def useEffect_body_def initialise_def render_component_def animate_def
      update_context_def)

section \<open>The Root view\<close>

lemma App_render_cases:
  "App_render True = [scene_subtree]" "App_render False = [panel_subtree]"
  by (simp_all add: App_render_def)

lemma subtree_hosts: "hosts scene_subtree = 1" "hosts panel_subtree = 0"
  by (simp_all add: scene_subtree_def panel_subtree_def)

lemma subtree_clicks: "onClicks scene_subtree = [False]" "onClicks panel_subtree = [True]"
  by (simp_all add: scene_subtree_def panel_subtree_def)

lemma subtrees_differ: "scene_subtree \<noteq> panel_subtree" "panel_subtree \<noteq> scene_subtree"
  by (simp_all add: scene_subtree_def panel_subtree_def)

lemma toggle_eq: "toggle env a = setShowThree env (\<not> showThree a) a"
  by (cases "showThree a") (simp_all add: toggle_def App_render_cases subtree_clicks)

lemma setShowThree_False:
  "setShowThree env False a =
     (case host a of None \<Rightarrow> a\<lparr>showThree := False\<rparr>
      | Some h \<Rightarrow> a\<lparr>showThree := False, host := None, retired := retired a @ [step Unmount (step DetachRef h)]\<rparr>)"
  by (simp add: setShowThree_def commit_def App_render_cases subtree_hosts split: option.splits)

lemma setShowThree_True:
  "setShowThree env True a =
     (case host a of None \<Rightarrow> a\<lparr>showThree := True, host := Some (mount env)\<rparr>
      | Some h \<Rightarrow> a\<lparr>showThree := True\<rparr>)"
  by (simp add: setShowThree_def commit_def App_render_cases subtree_hosts split: option.splits)

text \<open>
  C5. The Root view renders one tree, and it is the scene subtree or the placeholder panel,
  never both. A click on the button flips the display mode; two clicks give back the mode
  and the tree there were. If that is the scene, the Scene host mounted after the two clicks
  is a new instance made from the viewport of that moment alone, whatever the state of the
  instance that was unmounted; if it is the panel, no Scene host is left mounted.
\<close>

theorem toggle_twice:
  "length (App_render (showThree a)) = 1
   \<and> (scene_subtree \<in> set (App_render (showThree a)))
      \<noteq> (panel_subtree \<in> set (App_render (showThree a)))
   \<and> showThree (toggle e1 a) = (\<not> showThree a)
   \<and> showThree (toggle e2 (toggle e1 a)) = showThree a
   \<and> App_render (showThree (toggle e2 (toggle e1 a))) = App_render (showThree a)
   \<and> host (toggle e2 (toggle e1 a)) = (if showThree a then Some (mount e2) else None)"
proof (cases "showThree a")
  case True
  then show ?thesis
    by (cases "host a")
       (simp_all add: toggle_eq setShowThree_False setShowThree_True App_render_cases
          subtrees_differ del: step.simps)
next
  case False
  then show ?thesis
    by (cases "host a")
       (simp_all add: toggle_eq setShowThree_False setShowThree_True App_render_cases
          subtrees_differ del: step.simps)
qed

text \<open>
  C9. On the first render the toggle state is true, the tree is the scene subtree, which
  holds the Scene host, and not the placeholder panel, which holds none; the Scene host is
  mounted.
\<close>

theorem initial_display_mode:
  "showThree (App_init env)
   \<and> App_render (showThree (App_init env)) = [scene_subtree]
   \<and> hosts scene_subtree = 1 \<and> hosts panel_subtree = 0
   \<and> panel_subtree \<notin> set (App_render (showThree (App_init env)))
   \<and> host (App_init env) = Some (mount env)"
  by (simp add: App_init_def commit_def App_render_cases subtree_hosts subtrees_differ)

section \<open>Set-up, resize and teardown\<close>

text \<open>
  C8. The camera the effect constructs is a perspective camera with field of view 45, aspect
  the viewport width over the viewport height (the double nearest the quotient, and an
  infinity or not-a-number for a viewport of height 0), near plane the double \<open>0.1\<close> and far
  plane 1000, placed at \<open>(10, 10, 10)\<close> and turned from there to the origin; its projection
  matrix is computed from these four values. It is the camera the session holds when the
  set-up is done, before the first frame; and when the container is in place, a mount is
  that set-up followed by the first frame.
\<close>

theorem camera_setup:
  "build_camera env =
      \<lparr>fov = 45,
       aspect =
         (if innerHeight env = 0
          then (if innerWidth env = 0 then NotANumber else PosInfinity)
          else Finite (to_double (of_nat (innerWidth env) / of_nat (innerHeight env)))),
       near = to_double (1 / 10), far = 1000, camera_position = (10, 10, 10),
       camera_orientation = LookAt (10, 10, 10) (0, 0, 0),
       projectionMatrix =
         Perspective 45
           (if innerHeight env = 0
            then (if innerWidth env = 0 then NotANumber else PosInfinity)
            else Finite (to_double (of_nat (innerWidth env) / of_nat (innerHeight env))))
           (to_double (1 / 10)) 1000\<rparr>
   \<and> camera_of (initialise env (render_component env)) = Some (build_camera env)
   \<and> (ref_set env \<longrightarrow>
        mount env =
          animate (fst (first_frame env)) (snd (first_frame env))
            (initialise env (render_component env)))"
  by (simp add: build_camera_def PerspectiveCamera_def updateProjectionMatrix_def lookAt_def
      js_div_def camera_of_def initialise_def mount_def useEffect_body_def
      render_component_def)

theorem camera_setup_witness:
  "ref_set example_env
   \<and> mount example_env =
       animate (10, 10, 5629499534213121 / 562949953421312) (0, 0, 0)
         (initialise example_env (render_component example_env))
   \<and> camera_of (initialise example_env (render_component example_env)) =
      Some \<lparr>fov = 45, aspect = Finite (6004799503160661 / 4503599627370496),
            near = 3602879701896397 / 36028797018963968, far = 1000,
            camera_position = (10, 10, 10),
            camera_orientation = LookAt (10, 10, 10) (0, 0, 0),
            projectionMatrix =
              Perspective 45 (Finite (6004799503160661 / 4503599627370496))
                (3602879701896397 / 36028797018963968) 1000\<rparr>"
proof -
  have h: "ref_set example_env" by (simp add: example_env_def)
  have q: "(of_nat (innerWidth example_env) :: rat) / of_nat (innerHeight example_env) = 4 / 3"
    "innerHeight example_env \<noteq> 0" "first_frame example_env
      = ((10, 10, 5629499534213121 / 562949953421312), (0, 0, 0))"
    by (simp_all add: example_env_def)
  from camera_setup [of example_env] h show ?thesis
    by (simp add: q camera_roundings)
qed

text \<open>
  C6. While the resize handler is registered, a resize to \<open>w\<close> by \<open>h\<close> changes exactly
  this: the camera's aspect becomes \<open>w / h\<close> (the double nearest the quotient of the new
  width and the new height, and an infinity or not-a-number for height 0), the projection
  matrix is recomputed from the camera's field of view, the new aspect and the clip planes,
  and the drawing surface becomes \<open>w\<close> by \<open>h\<close>. The scene with the loaded model, the other
  fields of the camera, the controller, the requests, the container and the two flags are as
  before.
\<close>

theorem resize_updates_view:
  assumes "listening s"
  shows "(\<exists>c. effect s = Some c
      \<and> step (Resize w h) s =
          s\<lparr>effect := Some
              (c\<lparr>the_camera := (the_camera c)
                     \<lparr>aspect := js_div w h,
                      projectionMatrix :=
                        Perspective (fov (the_camera c)) (js_div w h)
                          (near (the_camera c)) (far (the_camera c))\<rparr>,
                  the_renderer := (the_renderer c)
                     \<lparr>surface_width := w, surface_height := h\<rparr>\<rparr>)\<rparr>)
    \<and> js_div w h =
        (if h = 0 then (if w = 0 then NotANumber else PosInfinity)
         else Finite (to_double (of_nat w / of_nat h)))
    \<and> map_option aspect (camera_of (step (Resize w h) s)) =
        Some (if h = 0 then (if w = 0 then NotANumber else PosInfinity)
              else Finite (to_double (of_nat w / of_nat h)))
    \<and> surface_size (step (Resize w h) s) = Some (w, h)
    \<and> scene_nodes (step (Resize w h) s) = scene_nodes s
    \<and> loading (step (Resize w h) s) = loading s
    \<and> error (step (Resize w h) s) = error s"
proof -
  from assms obtain c where c: "effect s = Some c" "resize_registered c"
    by (auto simp: listening_def split: option.splits)
  then show ?thesis
    by (simp add: reader_defs callback_defs updateProjectionMatrix_def setSize_def js_div_def)
qed

theorem resize_updates_view_witness:
  "listening (run [MtlLoaded example_materials, ObjLoaded example_object] (mount example_env))
   \<and> map_option aspect (camera_of
        (run [MtlLoaded example_materials, ObjLoaded example_object] (mount example_env)))
      = Some (Finite (6004799503160661 / 4503599627370496))
   \<and> map_option aspect (camera_of (step (Resize 1200 800)
        (run [MtlLoaded example_materials, ObjLoaded example_object] (mount example_env))))
      = Some (Finite (3 / 2))
   \<and> surface_size
        (run [MtlLoaded example_materials, ObjLoaded example_object] (mount example_env))
      = Some (800, 600)
   \<and> surface_size (step (Resize 1200 800)
        (run [MtlLoaded example_materials, ObjLoaded example_object] (mount example_env)))
      = Some (1200, 800)
   \<and> models (scene_nodes (step (Resize 1200 800)
        (run [MtlLoaded example_materials, ObjLoaded example_object] (mount example_env))))
      = [place_model example_object]"
proof -
  let ?s = "run [MtlLoaded example_materials, ObjLoaded example_object] (mount example_env)"
  have h: "listening ?s"
    by (simp add: mount_defs reader_defs callback_defs example_env_def)
  have m: "models (scene_nodes ?s) = [place_model example_object]"
    by (simp add: mount_defs reader_defs callback_defs example_env_def)
  have b: "map_option aspect (camera_of ?s) = Some (Finite (6004799503160661 / 4503599627370496))"
    "surface_size ?s = Some (800, 600)"
    by (simp_all add: mount_defs reader_defs callback_defs example_env_def js_div_def
        camera_roundings)
  have d: "(1200 :: rat) / 800 = 3 / 2" by simp
  from resize_updates_view [OF h, of 1200 800] h m b show ?thesis
    by (simp add: d camera_roundings del: step.simps run.simps)
qed

lemma effect_step: "effect s \<noteq> None \<Longrightarrow> effect (step e s) \<noteq> None"
  by (cases e; cases "effect s"; simp add: reader_defs callback_defs Let_def)

lemma effect_run: "effect s \<noteq> None \<Longrightarrow> effect (run es s) \<noteq> None"
proof (induction es arbitrary: s)
  case Nil
  then show ?case by simp
next
  case (Cons e es)
  from Cons.prems have "effect (step e s) \<noteq> None" by (rule effect_step)
  then have "effect (run es (step e s)) \<noteq> None" by (rule Cons.IH)
  then show ?case by (simp del: step.simps)
qed

lemma container_step:
  "container s = [RendererCanvas] \<or> container s = [] \<Longrightarrow>
   container (step e s) = [RendererCanvas] \<or> container (step e s) = []"
  by (cases e; cases "effect s"; auto simp add: reader_defs callback_defs Let_def)

lemma container_run:
  "container s = [RendererCanvas] \<or> container s = [] \<Longrightarrow>
   container (run es s) = [RendererCanvas] \<or> container (run es s) = []"
proof (induction es arbitrary: s)
  case Nil
  then show ?case by simp
next
  case (Cons e es)
  from Cons.prems
  have "container (step e s) = [RendererCanvas] \<or> container (step e s) = []"
    by (rule container_step)
  then have "container (run es (step e s)) = [RendererCanvas]
      \<or> container (run es (step e s)) = []"
    by (rule Cons.IH)
  then show ?case by (simp del: step.simps)
qed

lemma remove_all_children_empty: "remove_all_children xs = []"
  by (induction xs) simp_all

lemma mounted_session:
  assumes "ref_set env"
  shows "effect (run es (mount env)) \<noteq> None"
    and "container (run es (mount env)) = [RendererCanvas] \<or> container (run es (mount env)) = []"
proof -
  have "effect (mount env) \<noteq> None" "container (mount env) = [RendererCanvas]"
    using assms
    by (simp_all add: mount_def useEffect_body_def initialise_def render_component_def
        animate_def update_context_def remove_all_children_empty)
  then show "effect (run es (mount env)) \<noteq> None"
    and "container (run es (mount env)) = [RendererCanvas] \<or> container (run es (mount env)) = []"
    by (simp_all add: effect_run container_run)
qed

lemma cleanup_releases:
  assumes "effect s \<noteq> None"
  shows "\<not> listening (step Unmount s) \<and> controls_released (step Unmount s)
    \<and> surface_released (step Unmount s)"
proof -
  from assms obtain c where "effect s = Some c" by auto
  then show ?thesis
    by (cases "ref_attached s \<and> RendererCanvas \<in> set (container s)")
       (simp_all add: reader_defs callback_defs Let_def)
qed

lemma cleanup_container:
  assumes "effect s \<noteq> None" "container s = [RendererCanvas] \<or> container s = []"
  shows "if ref_attached s then RendererCanvas \<notin> set (container (step Unmount s))
         else container (step Unmount s) = container s"
proof -
  from assms(1) obtain c where "effect s = Some c" by auto
  with assms(2) show ?thesis
    by (cases "ref_attached s") (auto simp add: callback_defs Let_def)
qed

lemma cleanup_without_ref:
  assumes "effect s \<noteq> None"
  shows "container (step Unmount (step DetachRef s)) = container s
    \<and> \<not> listening (step Unmount (step DetachRef s))
    \<and> controls_released (step Unmount (step DetachRef s))
    \<and> surface_released (step Unmount (step DetachRef s))"
proof -
  from assms obtain c where "effect s = Some c" by auto
  then show ?thesis
    by (simp add: reader_defs callback_defs Let_def)
qed

text \<open>
  C7, as the code has it. In a session whose effect ran, at any point of its life, the cleanup
  leaves the resize handler unregistered, the controller disposed and the renderer disposed.
  It detaches the canvas only if \<open>mountRef.current\<close> still points at the container: then
  the canvas is not among the container's children afterwards. If React has cleared the ref,
  as it does before it runs the cleanup of an unmounted component, the container is left as
  it is, canvas included. When the Root view unmounts the session and mounts the Scene host
  again, the torn-down session is the old one after the clearing of its ref and its cleanup,
  and the mounted one is a new instance with the loading flag true and the error flag unset.
\<close>

theorem teardown_and_remount:
  assumes "ref_set env"
  shows "\<not> listening (step Unmount (run es (mount env)))
    \<and> controls_released (step Unmount (run es (mount env)))
    \<and> surface_released (step Unmount (run es (mount env)))
    \<and> (if ref_attached (run es (mount env))
        then RendererCanvas \<notin> set (container (step Unmount (run es (mount env))))
        else container (step Unmount (run es (mount env))) = container (run es (mount env)))
    \<and> container (step Unmount (step DetachRef (run es (mount env))))
        = container (run es (mount env))
    \<and> \<not> listening (step Unmount (step DetachRef (run es (mount env))))
    \<and> controls_released (step Unmount (step DetachRef (run es (mount env))))
    \<and> surface_released (step Unmount (step DetachRef (run es (mount env))))
    \<and> retired (toggle e1 \<lparr>showThree = True, host = Some (run es (mount env)), retired = r\<rparr>)
        = r @ [step Unmount (step DetachRef (run es (mount env)))]
    \<and> host (toggle e2
         (toggle e1 \<lparr>showThree = True, host = Some (run es (mount env)), retired = r\<rparr>))
        = Some (mount e2)
    \<and> loading (mount e2) \<and> error (mount e2) = None"
proof -
  note m = mounted_session [OF assms, of es]
  have "loading (mount e2) \<and> error (mount e2) = None"
    by (simp add: mount_def useEffect_body_def initialise_def render_component_def animate_def
        update_context_def)
  then show ?thesis
    using cleanup_releases [OF m(1)] cleanup_container [OF m] cleanup_without_ref [OF m(1)]
    by (simp add: toggle_eq setShowThree_False setShowThree_True del: step.simps)
qed

theorem teardown_and_remount_witness:
  "ref_set example_env
   \<and> ref_attached (run [MtlLoaded example_materials] (mount example_env))
   \<and> RendererCanvas \<in> set (container (run [MtlLoaded example_materials] (mount example_env)))
   \<and> RendererCanvas \<notin> set (container (step Unmount
        (run [MtlLoaded example_materials] (mount example_env))))
   \<and> container (step Unmount (step DetachRef
        (run [MtlLoaded example_materials] (mount example_env)))) = [RendererCanvas]
   \<and> \<not> listening (step Unmount (step DetachRef
        (run [MtlLoaded example_materials] (mount example_env))))
   \<and> controls_released (step Unmount (step DetachRef
        (run [MtlLoaded example_materials] (mount example_env))))
   \<and> surface_released (step Unmount (step DetachRef
        (run [MtlLoaded example_materials] (mount example_env))))"
proof -
  let ?s = "run [MtlLoaded example_materials] (mount example_env)"
  have h: "ref_set example_env" by (simp add: example_env_def)
  have a: "ref_attached ?s" "container ?s = [RendererCanvas]"
    by (simp_all add: mount_defs reader_defs callback_defs example_env_def)
  from teardown_and_remount [OF h, of "[MtlLoaded example_materials]"] h a show ?thesis
    by (simp del: step.simps run.simps)
qed

theorem canvas_stays_counterexample:
  "RendererCanvas \<in> set (container (step DetachRef (mount example_env)))
   \<and> RendererCanvas \<in> set (container (step Unmount (step DetachRef (mount example_env))))
   \<and> map container
        (retired (toggle example_env
           \<lparr>showThree = True, host = Some (mount example_env), retired = []\<rparr>))
      = [[RendererCanvas]]"
proof -
  have "container (step Unmount (step DetachRef (mount example_env))) = [RendererCanvas]"
    "container (step DetachRef (mount example_env)) = [RendererCanvas]"
    by (simp_all add: mount_defs reader_defs callback_defs example_env_def Let_def)
  then show ?thesis
    by (simp add: toggle_eq setShowThree_False del: step.simps)
qed

section \<open>The flags move one way\<close>

lemma flags_step:
  assumes "consistent s"
  shows "(\<not> loading s \<longrightarrow> \<not> loading (step e s))
    \<and> (error s \<noteq> None \<longrightarrow> error (step e s) = error s)"
proof (cases "effect s")
  case None
  with assms show ?thesis
    by (cases e) (simp_all add: consistent_def reader_defs callback_defs)
next
  case (Some c)
  with assms show ?thesis
    by (cases e; cases "mtl_request c"; cases "obj_request c")
       (simp_all add: consistent_def reader_defs callback_defs Let_def)
qed

lemma flags_run:
  "consistent s \<Longrightarrow>
     (\<not> loading s \<longrightarrow> \<not> loading (run es s)) \<and> (error s \<noteq> None \<longrightarrow> error (run es s) = error s)"
proof (induction es arbitrary: s)
  case Nil
  then show ?case by simp
next
  case (Cons e es)
  from Cons.prems have "consistent (step e s)" by (rule consistent_step)
  from Cons.IH [OF this] flags_step [OF Cons.prems, of e] show ?case
    by (auto simp del: step.simps)
qed

lemma consistent_error:
  "consistent s \<Longrightarrow>
     error s = None \<or> error s = Some ''Failed to load MTL file''
     \<or> error s = Some ''Failed to load OBJ file''"
  by (cases "mtl_status s"; cases "obj_status s"; simp add: consistent_def)

text \<open>
  C10. In a session, at any point of its life: if the loading flag is false it stays false
  whatever is delivered afterwards; if the error flag is set it keeps its value; and the
  error flag is unset or one of the two fixed messages.
\<close>

theorem flags_one_way:
  "(\<not> loading (run es (mount env)) \<longrightarrow> \<not> loading (run es' (run es (mount env))))
   \<and> (error (run es (mount env)) \<noteq> None \<longrightarrow>
        error (run es' (run es (mount env))) = error (run es (mount env)))
   \<and> (error (run es (mount env)) = None
      \<or> error (run es (mount env)) = Some ''Failed to load MTL file''
      \<or> error (run es (mount env)) = Some ''Failed to load OBJ file'')"
  using flags_run [OF consistent_reachable, of es env es']
    consistent_error [OF consistent_reachable, of es env]
  by blast

theorem flags_one_way_witness:
  "\<not> loading (run [MtlLoaded example_materials, ObjError] (mount example_env))
   \<and> \<not> loading (run [ObjLoaded example_object, MtlError, Resize 1 1, Unmount]
        (run [MtlLoaded example_materials, ObjError] (mount example_env)))
   \<and> error (run [MtlLoaded example_materials, ObjError] (mount example_env))
       = Some ''Failed to load OBJ file''
   \<and> error (run [ObjLoaded example_object, MtlError, Resize 1 1, Unmount]
        (run [MtlLoaded example_materials, ObjError] (mount example_env)))
       = Some ''Failed to load OBJ file''"
proof -
  let ?s = "run [MtlLoaded example_materials, ObjError] (mount example_env)"
  have a: "\<not> loading ?s" "error ?s = Some ''Failed to load OBJ file''"
    by (simp_all add: mount_defs reader_defs callback_defs example_env_def)
  from flags_one_way [of "[MtlLoaded example_materials, ObjError]" example_env
      "[ObjLoaded example_object, MtlError, Resize 1 1, Unmount]"] a
  show ?thesis by (simp del: step.simps run.simps)
qed

end
